theory Spec2Isabelle
  imports Main "HOL-Library.Char_ord" "HOL-Library.List_Lexorder"
begin

text \<open>
  A model of the task manager's caching, idempotency and enrichment layer: the cache
  adapter of \<open>core/cache.py\<close>, the crud functions and route handlers for tasks and
  comments, and the two background jobs. A request is a function from the world (the
  store's rows, the cache backend, the clock, the record of effects) to a result and a
  new world; a raised exception is the \<open>Inl\<close> result.

  What lies outside the repository is a parameter or an input of the model: Python's
  string hash, SQL's \<open>ILIKE\<close>, the ISO date parser, the outcome of each backend
  command and of each external HTTP call. The store itself does not fail, so the retry
  decorator of \<open>crud.create_task\<close> (on \<open>OperationalError\<close>) has nothing to do here;
  rate limiting and logging other than the cache adapter's error log are left out.
\<close>

section \<open>Python values and string formatting\<close>

text \<open>
  The routes build their cache keys with f-strings, so the decimal rendering of an
  integer (\<open>str(int)\<close>) is part of the model.
\<close>

definition digit_char :: "nat \<Rightarrow> char" where
  "digit_char d = ''0123456789'' ! d"

function str_nat :: "nat \<Rightarrow> string" where
  "str_nat n = (if n < 10 then [digit_char n] else str_nat (n div 10) @ [digit_char (n mod 10)])"
  by pat_completeness auto
termination
  by (relation "measure (\<lambda>n. n)") auto

declare str_nat.simps [simp del]

definition str_int :: "int \<Rightarrow> string" where
  "str_int i = (if i < 0 then CHR ''-'' # str_nat (nat (- i)) else str_nat (nat i))"

text \<open>
  The values that occur in the filter dictionary of a list request and in the JSON
  document of the external source: integers, strings, booleans and \<open>None\<close>/null.
  \<open>py_str\<close> is what \<open>f"{v}"\<close> renders.
\<close>

datatype pyval = PNone | PBool bool | PInt int | PStr string

fun py_str :: "pyval \<Rightarrow> string" where
  "py_str PNone = ''None''"
| "py_str (PBool b) = (if b then ''True'' else ''False'')"
| "py_str (PInt i) = str_int i"
| "py_str (PStr s) = s"

fun join :: "string \<Rightarrow> string list \<Rightarrow> string" where
  "join sep [] = []"
| "join sep [x] = x"
| "join sep (x # y # ys) = x @ sep @ join sep (y # ys)"

text \<open>A flat JSON object, as the external endpoint returns and \<open>task_metadata\<close> stores.\<close>

type_synonym metadata = "(string \<times> pyval) list"

definition dict_get :: "metadata \<Rightarrow> string \<Rightarrow> pyval" where
  "dict_get d k = (case map_of d k of None \<Rightarrow> PNone | Some v \<Rightarrow> v)"


section \<open>Data model\<close>

text \<open>models/task.py, models/comment.py, models/user.py: the columns the routes read.\<close>

record task =
  t_id :: int
  t_title :: string
  t_description :: "string option"
  t_status :: string
  t_owner_id :: int
  t_created_at :: int
  t_task_metadata :: "metadata option"

record comment =
  c_id :: int
  c_content :: string
  c_task_id :: int
  c_user_id :: int
  c_created_at :: int

record user =
  u_id :: int
  u_role :: string

text \<open>schemas/task.py and schemas/comment.py: request bodies.\<close>

record TaskCreate =
  tc_title :: string
  tc_description :: "string option"
  tc_status :: string

record CommentCreate =
  cc_task_id :: int
  cc_content :: string

text \<open>
  The dictionary handed to \<open>crud.update_task\<close>: for each column, \<open>None\<close> when the
  key is absent, \<open>Some v\<close> when the key is present with value \<open>v\<close> (which may itself be
  null). \<open>TaskUpdate.dict(exclude_unset=True)\<close> only ever has the first three keys.
\<close>

record task_updates =
  up_title :: "string option option"
  up_description :: "string option option"
  up_status :: "string option option"
  up_task_metadata :: "metadata option option"

definition no_updates :: task_updates where
  "no_updates = \<lparr>up_title = None, up_description = None, up_status = None, up_task_metadata = None\<rparr>"

text \<open>schemas/pagination.py: \<open>PaginatedResponse\<close>, here with \<open>TaskRead\<close> items.
  \<open>TaskRead\<close> has exactly the seven columns of a task, so \<open>TaskRead.from_orm\<close> copies
  the record.\<close>

record page =
  p_items :: "task list"
  p_total :: int
  p_page :: int
  p_page_size :: int
  p_total_pages :: int
  p_has_next :: bool
  p_has_prev :: bool

definition PaginatedResponse_create :: "task list \<Rightarrow> int \<Rightarrow> int \<Rightarrow> int \<Rightarrow> page" where
  "PaginatedResponse_create items total_count pg page_size =
     (let total_pages = (total_count + page_size - 1) div page_size in
      \<lparr>p_items = items, p_total = total_count, p_page = pg, p_page_size = page_size,
       p_total_pages = total_pages, p_has_next = (pg < total_pages), p_has_prev = (pg > 1)\<rparr>)"

text \<open>What a handler can raise: an \<open>HTTPException\<close> with status and detail, or any other
  exception, which the application's general handler turns into a 500 response.\<close>

datatype exn = HTTPException nat string | Unhandled string


section \<open>core/cache.py: the cache store\<close>

text \<open>
  The backend holds entries with an absolute expiry time. Values are kept structured:
  the JSON round trip of a response dictionary is the identity on the fields modelled.
\<close>

datatype cached = CTask task | CPage page

type_synonym entry = "string \<times> cached \<times> int"

text \<open>Redis glob patterns, for the pattern characters the code uses: \<open>*\<close> and \<open>?\<close>.\<close>

fun glob_match :: "string \<Rightarrow> string \<Rightarrow> bool" where
  "glob_match [] s = (s = [])"
| "glob_match (p # ps) [] = (p = CHR ''*'' \<and> glob_match ps [])"
| "glob_match (p # ps) (c # cs) =
     (if p = CHR ''*'' then glob_match ps (c # cs) \<or> glob_match (p # ps) cs
      else (p = CHR ''?'' \<or> p = c) \<and> glob_match ps cs)"

definition alive :: "int \<Rightarrow> entry \<Rightarrow> bool" where
  "alive now e = (now < snd (snd e))"

definition redis_get :: "int \<Rightarrow> string \<Rightarrow> entry list \<Rightarrow> cached option" where
  "redis_get now key es =
     (case find (\<lambda>e. fst e = key \<and> alive now e) es of
        None \<Rightarrow> None
      | Some e \<Rightarrow> Some (fst (snd e)))"

definition redis_setex :: "int \<Rightarrow> string \<Rightarrow> int \<Rightarrow> cached \<Rightarrow> entry list \<Rightarrow> entry list" where
  "redis_setex now key ttl v es = (key, v, now + ttl) # filter (\<lambda>e. fst e \<noteq> key) es"

definition redis_keys :: "int \<Rightarrow> string \<Rightarrow> entry list \<Rightarrow> string list" where
  "redis_keys now pattern es = map fst (filter (\<lambda>e. alive now e \<and> glob_match pattern (fst e)) es)"

definition redis_delete :: "int \<Rightarrow> string list \<Rightarrow> entry list \<Rightarrow> int \<times> entry list" where
  "redis_delete now ks es =
     (int (length (filter (\<lambda>e. alive now e \<and> fst e \<in> set ks) es)),
      filter (\<lambda>e. fst e \<notin> set ks) es)"

text \<open>
  \<open>SETEX\<close> refuses an expiry that is not positive; \<open>set\<close> then reports failure like
  for any other failing command.
\<close>

text \<open>
  \<open>RedisCache\<close>: the client handle (\<open>redis_client\<close>, unset until \<open>connect\<close>), and the
  environment the adapter runs against: whether \<open>redis.from_url\<close> returns a client,
  the outcome of each successive backend command (\<open>True\<close>: the command raises; an
  exhausted list means no further failure), the backend's entries, and the error log.
\<close>

record RedisCache =
  redis_client :: bool
  from_url_ok :: bool
  faults :: "bool list"
  entries :: "entry list"
  error_log :: "string list"

text \<open>
  \<open>connect\<close> creates the client with \<open>redis.from_url\<close>, which opens no connection and
  raises only for a malformed \<open>REDIS_URL\<close>; the connection is established by the first
  command sent through the client.
\<close>

definition connect :: "RedisCache \<Rightarrow> exn + RedisCache" where
  "connect c =
     (if \<not> redis_client c then
        (if from_url_ok c then Inr (c\<lparr>redis_client := True\<rparr>)
         else Inl (Unhandled ''redis.from_url''))
      else Inr c)"

definition command_fails :: "RedisCache \<Rightarrow> bool \<times> RedisCache" where
  "command_fails c = (case faults c of [] \<Rightarrow> (False, c) | f # fs \<Rightarrow> (f, c\<lparr>faults := fs\<rparr>))"

definition log_error :: "string \<Rightarrow> RedisCache \<Rightarrow> RedisCache" where
  "log_error msg c = c\<lparr>error_log := error_log c @ [msg]\<rparr>"

definition cache_get :: "int \<Rightarrow> string \<Rightarrow> RedisCache \<Rightarrow> (exn + cached option) \<times> RedisCache" where
  "cache_get now key c0 =
     (case connect c0 of
        Inl e \<Rightarrow> (Inl e, c0)
      | Inr c1 \<Rightarrow>
          (case command_fails c1 of
             (True, c2) \<Rightarrow> (Inr None, log_error ''Cache get error'' c2)
           | (False, c2) \<Rightarrow> (Inr (redis_get now key (entries c2)), c2)))"

definition cache_set :: "int \<Rightarrow> string \<Rightarrow> cached \<Rightarrow> int \<Rightarrow> RedisCache \<Rightarrow> (exn + bool) \<times> RedisCache" where
  "cache_set now key v expire_seconds c0 =
     (case connect c0 of
        Inl e \<Rightarrow> (Inl e, c0)
      | Inr c1 \<Rightarrow>
          (case command_fails c1 of
             (True, c2) \<Rightarrow> (Inr False, log_error ''Cache set error'' c2)
           | (False, c2) \<Rightarrow>
               if expire_seconds \<le> 0
               then (Inr False, log_error ''Cache set error'' c2)
               else (Inr True,
                     c2\<lparr>entries := redis_setex now key expire_seconds v (entries c2)\<rparr>)))"

definition cache_delete :: "int \<Rightarrow> string \<Rightarrow> RedisCache \<Rightarrow> (exn + bool) \<times> RedisCache" where
  "cache_delete now key c0 =
     (case connect c0 of
        Inl e \<Rightarrow> (Inl e, c0)
      | Inr c1 \<Rightarrow>
          (case command_fails c1 of
             (True, c2) \<Rightarrow> (Inr False, log_error ''Cache delete error'' c2)
           | (False, c2) \<Rightarrow>
               (case redis_delete now [key] (entries c2) of
                  (result, es) \<Rightarrow> (Inr (result > 0), c2\<lparr>entries := es\<rparr>))))"

definition cache_delete_pattern :: "int \<Rightarrow> string \<Rightarrow> RedisCache \<Rightarrow> (exn + int) \<times> RedisCache" where
  "cache_delete_pattern now pattern c0 =
     (case connect c0 of
        Inl e \<Rightarrow> (Inl e, c0)
      | Inr c1 \<Rightarrow>
          (case command_fails c1 of
             (True, c2) \<Rightarrow> (Inr 0, log_error ''Cache delete pattern error'' c2)
           | (False, c2) \<Rightarrow>
               (let keys = redis_keys now pattern (entries c2) in
                if keys \<noteq> [] then
                  (case command_fails c2 of
                     (True, c3) \<Rightarrow> (Inr 0, log_error ''Cache delete pattern error'' c3)
                   | (False, c3) \<Rightarrow>
                       (case redis_delete now keys (entries c3) of
                          (result, es) \<Rightarrow> (Inr result, c3\<lparr>entries := es\<rparr>)))
                else (Inr 0, c2))))"

definition get_idempotency :: "int \<Rightarrow> string \<Rightarrow> RedisCache \<Rightarrow> (exn + cached option) \<times> RedisCache" where
  "get_idempotency now key c = cache_get now (''idempotency:'' @ key) c"

definition set_idempotency :: "int \<Rightarrow> string \<Rightarrow> cached \<Rightarrow> RedisCache \<Rightarrow> (exn + bool) \<times> RedisCache" where
  "set_idempotency now key response c = cache_set now (''idempotency:'' @ key) response 86400 c"

subsection \<open>Cache key generators\<close>

text \<open>
  \<open>hash\<close> is Python's built-in string hash, a parameter here. The filter dictionary is
  an association list in insertion order; an absent value is \<open>None\<close>. The keys of a
  dictionary are distinct, so \<open>sorted(filters.items())\<close> orders the items by key.
\<close>

definition filter_str :: "(string \<times> pyval) list \<Rightarrow> string" where
  "filter_str filters =
     join ''_'' (map (\<lambda>(k, v). k @ '':'' @ py_str v)
                  (filter (\<lambda>(k, v). v \<noteq> PNone) (sort_key fst filters)))"

definition make_task_cache_key :: "(string \<Rightarrow> int) \<Rightarrow> int \<Rightarrow> (string \<times> pyval) list \<Rightarrow> string" where
  "make_task_cache_key hash user_id filters =
     ''tasks:user:'' @ str_int user_id @ '':'' @ str_int (hash (filter_str filters))"

definition make_task_detail_cache_key :: "int \<Rightarrow> string" where
  "make_task_detail_cache_key task_id = ''task:'' @ str_int task_id"

definition make_user_tasks_cache_key :: "int \<Rightarrow> string" where
  "make_user_tasks_cache_key user_id = ''tasks:user:'' @ str_int user_id @ '':*''"


section \<open>The store, the clock and the record of effects\<close>

text \<open>
  Every effect of a request is recorded in order: a statement sent to the store
  (\<open>db.execute\<close>, \<open>db.refresh\<close>, the statements of a flush), a successful commit, each
  call of the cache adapter, the enqueueing of the enrichment job, and each \<open>GET\<close> of
  the external document (with the number in its URL).
\<close>

datatype event =
    DbExecute
  | DbCommit
  | CacheGet string
  | CacheSet string int
  | CacheDelete string
  | CacheDeletePattern string
  | Enqueue int
  | ExternalGet int

record world =
  tasks :: "task list"
  comments :: "comment list"
  next_task_id :: int
  next_comment_id :: int
  cache :: RedisCache
  now :: int
  trace :: "event list"

definition emit :: "event \<Rightarrow> world \<Rightarrow> world" where
  "emit e w = w\<lparr>trace := trace w @ [e]\<rparr>"

text \<open>The calls \<open>await cache.get(...)\<close> etc. on the module's \<open>cache\<close> object.\<close>

definition await_cache_get :: "string \<Rightarrow> world \<Rightarrow> (exn + cached option) \<times> world" where
  "await_cache_get key w =
     (case cache_get (now w) key (cache w) of (r, c) \<Rightarrow> (r, emit (CacheGet key) (w\<lparr>cache := c\<rparr>)))"

definition await_cache_set :: "string \<Rightarrow> cached \<Rightarrow> int \<Rightarrow> world \<Rightarrow> (exn + bool) \<times> world" where
  "await_cache_set key v expire_seconds w =
     (case cache_set (now w) key v expire_seconds (cache w) of
        (r, c) \<Rightarrow> (r, emit (CacheSet key expire_seconds) (w\<lparr>cache := c\<rparr>)))"

definition await_cache_delete :: "string \<Rightarrow> world \<Rightarrow> (exn + bool) \<times> world" where
  "await_cache_delete key w =
     (case cache_delete (now w) key (cache w) of (r, c) \<Rightarrow> (r, emit (CacheDelete key) (w\<lparr>cache := c\<rparr>)))"

definition await_cache_delete_pattern :: "string \<Rightarrow> world \<Rightarrow> (exn + int) \<times> world" where
  "await_cache_delete_pattern pattern w =
     (case cache_delete_pattern (now w) pattern (cache w) of
        (r, c) \<Rightarrow> (r, emit (CacheDeletePattern pattern) (w\<lparr>cache := c\<rparr>)))"

definition await_get_idempotency :: "string \<Rightarrow> world \<Rightarrow> (exn + cached option) \<times> world" where
  "await_get_idempotency key w =
     (case get_idempotency (now w) key (cache w) of
        (r, c) \<Rightarrow> (r, emit (CacheGet (''idempotency:'' @ key)) (w\<lparr>cache := c\<rparr>)))"

definition await_set_idempotency :: "string \<Rightarrow> cached \<Rightarrow> world \<Rightarrow> (exn + bool) \<times> world" where
  "await_set_idempotency key response w =
     (case set_idempotency (now w) key response (cache w) of
        (r, c) \<Rightarrow> (r, emit (CacheSet (''idempotency:'' @ key) 86400) (w\<lparr>cache := c\<rparr>)))"


section \<open>schemas/pagination.py: filters and pagination\<close>

text \<open>
  The libraries the code calls are parameters: Python's string \<open>hash\<close>, SQL's
  \<open>ILIKE\<close> (pattern, then value) and \<open>datetime.fromisoformat\<close>, which returns a
  timestamp or raises \<open>ValueError\<close> (\<open>None\<close>).
\<close>

record env =
  py_hash :: "string \<Rightarrow> int"
  sql_ilike :: "string \<Rightarrow> string \<Rightarrow> bool"
  fromisoformat :: "string \<Rightarrow> int option"

record PaginationParams =
  pg_page :: int
  pg_page_size :: int

definition offset :: "PaginationParams \<Rightarrow> int" where
  "offset p = (pg_page p - 1) * pg_page_size p"

definition limit :: "PaginationParams \<Rightarrow> int" where
  "limit p = pg_page_size p"

record TaskFilters =
  f_status :: "string option"
  f_owner_id :: "int option"
  f_title_contains :: "string option"
  f_created_after :: "string option"
  f_created_before :: "string option"

text \<open>Python truthiness of an optional string: neither \<open>None\<close> nor empty.\<close>

definition truthy :: "string option \<Rightarrow> string option" where
  "truthy s = (case s of None \<Rightarrow> None | Some v \<Rightarrow> if v = [] then None else Some v)"

definition replace_Z :: "string \<Rightarrow> string" where
  "replace_Z s = concat (map (\<lambda>c. if c = CHR ''Z'' then ''+00:00'' else [c]) s)"

text \<open>The validator of \<open>created_after\<close> and \<open>created_before\<close>: \<open>True\<close> when it raises.\<close>

definition validate_date :: "env \<Rightarrow> string option \<Rightarrow> bool" where
  "validate_date ev v =
     (case truthy v of
        None \<Rightarrow> False
      | Some s \<Rightarrow> fromisoformat ev (replace_Z s) = None)"

text \<open>Constructing \<open>TaskFilters(...)\<close>: a validator that raises makes the constructor
  raise pydantic's \<open>ValidationError\<close>.\<close>

definition TaskFilters_init ::
  "env \<Rightarrow> string option \<Rightarrow> int option \<Rightarrow> string option \<Rightarrow> string option \<Rightarrow> string option
   \<Rightarrow> exn + TaskFilters" where
  "TaskFilters_init ev status owner_id title_contains created_after created_before =
     (if validate_date ev created_after \<or> validate_date ev created_before
      then Inl (Unhandled ''ValidationError: Invalid ISO date format'')
      else Inr \<lparr>f_status = status, f_owner_id = owner_id, f_title_contains = title_contains,
                f_created_after = created_after, f_created_before = created_before\<rparr>)"


section \<open>api/v1/crud/task.py\<close>

definition crud_create_task :: "TaskCreate \<Rightarrow> int \<Rightarrow> world \<Rightarrow> task \<times> world" where
  "crud_create_task task_in owner_id w =
     (let new_task = \<lparr>t_id = next_task_id w, t_title = tc_title task_in,
                       t_description = tc_description task_in, t_status = tc_status task_in,
                       t_owner_id = owner_id, t_created_at = now w, t_task_metadata = None\<rparr>
      in (new_task,
          emit DbExecute (emit DbCommit
            (w\<lparr>tasks := tasks w @ [new_task], next_task_id := next_task_id w + 1\<rparr>))))"

definition crud_get_task_by_id :: "int \<Rightarrow> world \<Rightarrow> task option \<times> world" where
  "crud_get_task_by_id task_id w = (find (\<lambda>t. t_id t = task_id) (tasks w), emit DbExecute w)"

text \<open>The conditions of the list query. A date condition raises the 400 error when the
  date does not parse.\<close>

definition date_bound :: "env \<Rightarrow> string option \<Rightarrow> string \<Rightarrow> exn + int option" where
  "date_bound ev v detail =
     (case truthy v of
        None \<Rightarrow> Inr None
      | Some s \<Rightarrow>
          (case fromisoformat ev (replace_Z s) of
             None \<Rightarrow> Inl (HTTPException 400 detail)
           | Some d \<Rightarrow> Inr (Some d)))"

definition task_conditions ::
  "env \<Rightarrow> TaskFilters \<Rightarrow> int \<Rightarrow> bool \<Rightarrow> int option \<Rightarrow> int option \<Rightarrow> task \<Rightarrow> bool" where
  "task_conditions ev filters current_user_id is_admin date_after date_before t =
     ((if \<not> is_admin then t_owner_id t = current_user_id
       else (case f_owner_id filters of None \<Rightarrow> True | Some ow \<Rightarrow> t_owner_id t = ow))
      \<and> (case truthy (f_status filters) of None \<Rightarrow> True
          | Some s \<Rightarrow> sql_ilike ev (''%'' @ s @ ''%'') (t_status t))
      \<and> (case truthy (f_title_contains filters) of None \<Rightarrow> True
          | Some s \<Rightarrow> sql_ilike ev (''%'' @ s @ ''%'') (t_title t))
      \<and> (case date_after of None \<Rightarrow> True | Some d \<Rightarrow> t_created_at t \<ge> d)
      \<and> (case date_before of None \<Rightarrow> True | Some d \<Rightarrow> t_created_at t \<le> d))"

definition get_tasks_with_pagination ::
  "env \<Rightarrow> PaginationParams \<Rightarrow> TaskFilters \<Rightarrow> int \<Rightarrow> bool \<Rightarrow> world
   \<Rightarrow> (exn + task list \<times> int) \<times> world" where
  "get_tasks_with_pagination ev pagination filters current_user_id is_admin w =
     (case date_bound ev (f_created_after filters) ''Invalid created_after date format'' of
        Inl e \<Rightarrow> (Inl e, w)
      | Inr date_after \<Rightarrow>
          (case date_bound ev (f_created_before filters) ''Invalid created_before date format'' of
             Inl e \<Rightarrow> (Inl e, w)
           | Inr date_before \<Rightarrow>
               (let matching = filter (task_conditions ev filters current_user_id is_admin
                                         date_after date_before) (tasks w);
                    total_count = int (length matching);
                    rows = take (nat (limit pagination))
                             (drop (nat (offset pagination))
                                (sort_key (\<lambda>t. - t_created_at t) matching))
                in (Inr (rows, total_count), emit DbExecute (emit DbExecute w)))))"

text \<open>\<open>UPDATE tasks SET ... WHERE id = task_id RETURNING\<close>. \<open>title\<close> and \<open>status\<close> are
  \<open>NOT NULL\<close> columns: setting one to null on an existing row is refused by the store.\<close>

definition set_columns :: "task_updates \<Rightarrow> task \<Rightarrow> task" where
  "set_columns updates t =
     t\<lparr>t_title := (case up_title updates of Some (Some v) \<Rightarrow> v | _ \<Rightarrow> t_title t),
       t_description := (case up_description updates of Some v \<Rightarrow> v | None \<Rightarrow> t_description t),
       t_status := (case up_status updates of Some (Some v) \<Rightarrow> v | _ \<Rightarrow> t_status t),
       t_task_metadata := (case up_task_metadata updates of Some v \<Rightarrow> v
                           | None \<Rightarrow> t_task_metadata t)\<rparr>"

definition crud_update_task :: "int \<Rightarrow> task_updates \<Rightarrow> world \<Rightarrow> (exn + task option) \<times> world" where
  "crud_update_task task_id updates w =
     (case find (\<lambda>t. t_id t = task_id) (tasks w) of
        None \<Rightarrow> (Inr None, emit DbCommit (emit DbExecute w))
      | Some t \<Rightarrow>
          if up_title updates = Some None \<or> up_status updates = Some None
          then (Inl (Unhandled ''IntegrityError''), emit DbExecute w)
          else (Inr (Some (set_columns updates t)),
                emit DbCommit (emit DbExecute
                  (w\<lparr>tasks := map (\<lambda>x. if t_id x = task_id then set_columns updates x else x)
                                  (tasks w)\<rparr>))))"

text \<open>
  \<open>Task.comments\<close> has no delete cascade and \<open>comments.task_id\<close> is \<open>NOT NULL\<close>:
  deleting a task that still has a comment is refused by the store when the commit
  flushes, with \<open>IntegrityError\<close>, and nothing is deleted.
\<close>

definition crud_delete_task :: "task \<Rightarrow> world \<Rightarrow> (exn + unit) \<times> world" where
  "crud_delete_task task w =
     (if list_ex (\<lambda>c. c_task_id c = t_id task) (comments w)
      then (Inl (Unhandled ''IntegrityError''), emit DbExecute w)
      else (Inr (),
            emit DbCommit (w\<lparr>tasks := filter (\<lambda>t. t_id t \<noteq> t_id task) (tasks w)\<rparr>)))"

definition update_task_metadata :: "task \<Rightarrow> metadata \<Rightarrow> world \<Rightarrow> world" where
  "update_task_metadata task metadata w =
     emit DbExecute (emit DbCommit
       (w\<lparr>tasks := map (\<lambda>x. if t_id x = t_id task then x\<lparr>t_task_metadata := Some metadata\<rparr> else x)
                       (tasks w)\<rparr>))"


section \<open>api/v1/crud/comment.py\<close>

definition crud_create_comment :: "CommentCreate \<Rightarrow> int \<Rightarrow> world \<Rightarrow> comment \<times> world" where
  "crud_create_comment comment_in user_id w =
     (let new_comment = \<lparr>c_id = next_comment_id w, c_content = cc_content comment_in,
                          c_task_id = cc_task_id comment_in, c_user_id = user_id,
                          c_created_at = now w\<rparr>
      in (new_comment,
          emit DbExecute (emit DbCommit
            (w\<lparr>comments := comments w @ [new_comment],
               next_comment_id := next_comment_id w + 1\<rparr>))))"

definition get_comment_by_id :: "int \<Rightarrow> world \<Rightarrow> comment option \<times> world" where
  "get_comment_by_id comment_id w =
     (find (\<lambda>c. c_id c = comment_id) (comments w), emit DbExecute w)"

definition crud_delete_comment :: "comment \<Rightarrow> world \<Rightarrow> world" where
  "crud_delete_comment cm w =
     emit DbCommit (w\<lparr>comments := filter (\<lambda>c. c_id c \<noteq> c_id cm) (comments w)\<rparr>)"

definition crud_update_comment :: "comment \<Rightarrow> string \<Rightarrow> world \<Rightarrow> comment \<times> world" where
  "crud_update_comment cm content w =
     (cm\<lparr>c_content := content\<rparr>,
      emit DbExecute (emit DbCommit
        (w\<lparr>comments := map (\<lambda>x. if c_id x = c_id cm then x\<lparr>c_content := content\<rparr> else x)
                          (comments w)\<rparr>)))"


section \<open>api/v1/routes/task.py\<close>

text \<open>
  The module imports \<open>logging\<close> but never binds the name \<open>logger\<close>, so each
  \<open>logger.info(...)\<close> in its handlers raises \<open>NameError\<close>. (The comment routes, the
  cache adapter and the worker bind their own loggers.)
\<close>

definition logger_info :: "world \<Rightarrow> (exn + unit) \<times> world" where
  "logger_info w = (Inl (Unhandled ''NameError''), w)"

text \<open>\<open>if idempotency_key:\<close> holds for a header that is present and not empty.\<close>

definition create_task :: "TaskCreate \<Rightarrow> string option \<Rightarrow> user \<Rightarrow> world \<Rightarrow> (exn + task) \<times> world" where
  "create_task task_in idempotency_key current_user w0 =
     (case (case truthy idempotency_key of
              None \<Rightarrow> (Inr None, w0)
            | Some k \<Rightarrow> await_get_idempotency k w0) of
        (Inl e, w1) \<Rightarrow> (Inl e, w1)
      | (Inr (Some cached_response), w1) \<Rightarrow>
          (case logger_info w1 of
             (Inl e, w2) \<Rightarrow> (Inl e, w2)
           | (Inr _, w2) \<Rightarrow>
               (case cached_response of
                  CTask t \<Rightarrow> (Inr t, w2)
                | CPage _ \<Rightarrow> (Inl (Unhandled ''ValidationError''), w2)))
      | (Inr None, w1) \<Rightarrow>
          (case crud_create_task task_in (u_id current_user) w1 of
             (task, w2) \<Rightarrow>
               (case (case truthy idempotency_key of
                        None \<Rightarrow> (Inr (), w2)
                      | Some k \<Rightarrow>
                          (case await_set_idempotency k (CTask task) w2 of
                             (Inl e, w3) \<Rightarrow> (Inl e, w3)
                           | (Inr _, w3) \<Rightarrow> logger_info w3)) of
                  (Inl e, w3) \<Rightarrow> (Inl e, w3)
                | (Inr _, w3) \<Rightarrow>
                    (case await_cache_delete_pattern
                            (make_user_tasks_cache_key (u_id current_user)) w3 of
                       (Inl e, w4) \<Rightarrow> (Inl e, w4)
                     | (Inr _, w4) \<Rightarrow>
                         (case logger_info (emit (Enqueue (t_id task)) w4) of
                            (Inl e, w5) \<Rightarrow> (Inl e, w5)
                          | (Inr _, w5) \<Rightarrow> (Inr task, w5))))))"

record task_query =
  q_page :: int
  q_page_size :: int
  q_status :: "string option"
  q_owner_id :: "int option"
  q_title_contains :: "string option"
  q_created_after :: "string option"
  q_created_before :: "string option"

definition opt_str :: "string option \<Rightarrow> pyval" where
  "opt_str s = (case s of None \<Rightarrow> PNone | Some v \<Rightarrow> PStr v)"

definition opt_int :: "int option \<Rightarrow> pyval" where
  "opt_int i = (case i of None \<Rightarrow> PNone | Some v \<Rightarrow> PInt v)"

text \<open>The dictionary that \<open>get_tasks\<close> hands to \<open>make_task_cache_key\<close>.\<close>

definition list_cache_filters :: "task_query \<Rightarrow> TaskFilters \<Rightarrow> bool \<Rightarrow> (string \<times> pyval) list" where
  "list_cache_filters q filters is_admin =
     [(''page'', PInt (q_page q)),
      (''page_size'', PInt (q_page_size q)),
      (''status'', opt_str (q_status q)),
      (''owner_id'', opt_int (f_owner_id filters)),
      (''title_contains'', opt_str (q_title_contains q)),
      (''created_after'', opt_str (q_created_after q)),
      (''created_before'', opt_str (q_created_before q)),
      (''is_admin'', PBool is_admin)]"

text \<open>The bounds declared on \<open>page\<close> and \<open>page_size\<close> are checked before the handler
  body runs (422). A cached page is returned without a log call; a page read from the
  store is cached and then logged.\<close>

definition get_tasks :: "env \<Rightarrow> task_query \<Rightarrow> user \<Rightarrow> world \<Rightarrow> (exn + page) \<times> world" where
  "get_tasks ev q current_user w0 =
     (if q_page q < 1 \<or> q_page_size q < 1 \<or> q_page_size q > 100
      then (Inl (HTTPException 422 ''Unprocessable Entity''), w0)
      else
        (let is_admin = (u_role current_user = ''admin'');
             pagination = \<lparr>pg_page = q_page q, pg_page_size = q_page_size q\<rparr>
         in case TaskFilters_init ev (q_status q) (if is_admin then q_owner_id q else None)
                   (q_title_contains q) (q_created_after q) (q_created_before q) of
              Inl e \<Rightarrow> (Inl e, w0)
            | Inr filters \<Rightarrow>
                (let cache_key = make_task_cache_key (py_hash ev) (u_id current_user)
                                   (list_cache_filters q filters is_admin)
                 in case await_cache_get cache_key w0 of
                      (Inl e, w1) \<Rightarrow> (Inl e, w1)
                    | (Inr (Some cached_result), w1) \<Rightarrow>
                        (case cached_result of
                           CPage p \<Rightarrow> (Inr p, w1)
                         | CTask _ \<Rightarrow> (Inl (Unhandled ''ValidationError''), w1))
                    | (Inr None, w1) \<Rightarrow>
                        (case get_tasks_with_pagination ev pagination filters
                                (u_id current_user) is_admin w1 of
                           (Inl e, w2) \<Rightarrow> (Inl e, w2)
                         | (Inr (rows, total_count), w2) \<Rightarrow>
                             (let response = PaginatedResponse_create rows total_count
                                               (q_page q) (q_page_size q)
                              in case await_cache_set cache_key (CPage response) 300 w2 of
                                   (Inl e, w3) \<Rightarrow> (Inl e, w3)
                                 | (Inr _, w3) \<Rightarrow>
                                     (case logger_info w3 of
                                        (Inl e, w4) \<Rightarrow> (Inl e, w4)
                                      | (Inr _, w4) \<Rightarrow> (Inr response, w4)))))))"

definition get_task :: "int \<Rightarrow> user \<Rightarrow> world \<Rightarrow> (exn + task) \<times> world" where
  "get_task task_id current_user w0 =
     (let cache_key = make_task_detail_cache_key task_id
      in case await_cache_get cache_key w0 of
           (Inl e, w1) \<Rightarrow> (Inl e, w1)
         | (Inr (Some cached_task), w1) \<Rightarrow>
             (case cached_task of
                CTask t \<Rightarrow>
                  if u_role current_user \<noteq> ''admin'' \<and> t_owner_id t \<noteq> u_id current_user
                  then (Inl (HTTPException 403 ''Forbidden''), w1)
                  else
                    (case logger_info w1 of
                       (Inl e, w2) \<Rightarrow> (Inl e, w2)
                     | (Inr _, w2) \<Rightarrow> (Inr t, w2))
              | CPage _ \<Rightarrow>
                  if u_role current_user \<noteq> ''admin''
                  then (Inl (Unhandled ''KeyError''), w1)
                  else
                    (case logger_info w1 of
                       (Inl e, w2) \<Rightarrow> (Inl e, w2)
                     | (Inr _, w2) \<Rightarrow> (Inl (Unhandled ''ValidationError''), w2)))
         | (Inr None, w1) \<Rightarrow>
             (case crud_get_task_by_id task_id w1 of
                (None, w2) \<Rightarrow> (Inl (HTTPException 404 ''Task not found''), w2)
              | (Some task, w2) \<Rightarrow>
                  if u_role current_user \<noteq> ''admin'' \<and> t_owner_id task \<noteq> u_id current_user
                  then (Inl (HTTPException 403 ''Forbidden''), w2)
                  else
                    (case await_cache_set cache_key (CTask task) 600 w2 of
                       (Inl e, w3) \<Rightarrow> (Inl e, w3)
                     | (Inr _, w3) \<Rightarrow>
                         (case logger_info w3 of
                            (Inl e, w4) \<Rightarrow> (Inl e, w4)
                          | (Inr _, w4) \<Rightarrow> (Inr task, w4)))))"

text \<open>\<open>if not update_data\<close>: the dictionary has no key.\<close>

definition update_data_empty :: "task_updates \<Rightarrow> bool" where
  "update_data_empty u =
     (up_title u = None \<and> up_description u = None \<and> up_status u = None
      \<and> up_task_metadata u = None)"

definition update_task :: "int \<Rightarrow> task_updates \<Rightarrow> user \<Rightarrow> world \<Rightarrow> (exn + task) \<times> world" where
  "update_task task_id update_data current_user w0 =
     (case crud_get_task_by_id task_id w0 of
        (None, w1) \<Rightarrow> (Inl (HTTPException 404 ''Task not found''), w1)
      | (Some task, w1) \<Rightarrow>
          if u_role current_user \<noteq> ''admin'' \<and> t_owner_id task \<noteq> u_id current_user
          then (Inl (HTTPException 403 ''Forbidden''), w1)
          else if update_data_empty update_data
          then (Inl (HTTPException 400 ''No fields to update''), w1)
          else
            (case crud_update_task task_id update_data w1 of
               (Inl e, w2) \<Rightarrow> (Inl e, w2)
             | (Inr None, w2) \<Rightarrow> (Inl (HTTPException 404 ''Task not found''), w2)
             | (Inr (Some updated_task), w2) \<Rightarrow>
                 (case await_cache_delete (make_task_detail_cache_key task_id) w2 of
                    (Inl e, w3) \<Rightarrow> (Inl e, w3)
                  | (Inr _, w3) \<Rightarrow>
                      (case await_cache_delete_pattern
                              (make_user_tasks_cache_key (u_id current_user)) w3 of
                         (Inl e, w4) \<Rightarrow> (Inl e, w4)
                       | (Inr _, w4) \<Rightarrow>
                           (case (if u_role current_user = ''admin''
                                  then await_cache_delete_pattern ''tasks:user:*'' w4
                                  else (Inr 0, w4)) of
                              (Inl e, w5) \<Rightarrow> (Inl e, w5)
                            | (Inr _, w5) \<Rightarrow>
                                (case logger_info w5 of
                                   (Inl e, w6) \<Rightarrow> (Inl e, w6)
                                 | (Inr _, w6) \<Rightarrow> (Inr updated_task, w6)))))))"

definition delete_task :: "int \<Rightarrow> user \<Rightarrow> world \<Rightarrow> (exn + unit) \<times> world" where
  "delete_task task_id current_user w0 =
     (case crud_get_task_by_id task_id w0 of
        (None, w1) \<Rightarrow> (Inl (HTTPException 404 ''Task not found''), w1)
      | (Some task, w1) \<Rightarrow>
          if u_role current_user \<noteq> ''admin'' \<and> t_owner_id task \<noteq> u_id current_user
          then (Inl (HTTPException 403 ''Forbidden''), w1)
          else
            (case crud_delete_task task w1 of
               (Inl e, w2) \<Rightarrow> (Inl e, w2)
             | (Inr _, w2) \<Rightarrow>
                 (case await_cache_delete (make_task_detail_cache_key task_id) w2 of
                    (Inl e, w3) \<Rightarrow> (Inl e, w3)
                  | (Inr _, w3) \<Rightarrow>
                      (case await_cache_delete_pattern
                              (make_user_tasks_cache_key (u_id current_user)) w3 of
                         (Inl e, w4) \<Rightarrow> (Inl e, w4)
                       | (Inr _, w4) \<Rightarrow>
                           (case logger_info w4 of
                              (Inl e, w5) \<Rightarrow> (Inl e, w5)
                            | (Inr _, w5) \<Rightarrow> (Inr (), w5))))))"


section \<open>api/v1/routes/comment.py\<close>

definition create_comment :: "CommentCreate \<Rightarrow> user \<Rightarrow> world \<Rightarrow> (exn + comment) \<times> world" where
  "create_comment comment_in current_user w0 =
     (case crud_get_task_by_id (cc_task_id comment_in) w0 of
        (None, w1) \<Rightarrow> (Inl (HTTPException 404 ''Task not found''), w1)
      | (Some task, w1) \<Rightarrow>
          if u_role current_user \<noteq> ''admin'' \<and> t_owner_id task \<noteq> u_id current_user
          then (Inl (HTTPException 403 ''Forbidden''), w1)
          else
            (case crud_create_comment comment_in (u_id current_user) w1 of
               (cm, w2) \<Rightarrow>
                 (case await_cache_delete_pattern ''comments:*'' w2 of
                    (Inl e, w3) \<Rightarrow> (Inl e, w3)
                  | (Inr _, w3) \<Rightarrow>
                      (case await_cache_delete (''task:'' @ str_int (cc_task_id comment_in)) w3 of
                         (Inl e, w4) \<Rightarrow> (Inl e, w4)
                       | (Inr _, w4) \<Rightarrow> (Inr cm, w4)))))"

definition get_comment :: "int \<Rightarrow> user \<Rightarrow> world \<Rightarrow> (exn + comment) \<times> world" where
  "get_comment comment_id current_user w0 =
     (case get_comment_by_id comment_id w0 of
        (None, w1) \<Rightarrow> (Inl (HTTPException 404 ''Comment not found''), w1)
      | (Some cm, w1) \<Rightarrow>
          if u_role current_user \<noteq> ''admin'' \<and> c_user_id cm \<noteq> u_id current_user
          then
            (case crud_get_task_by_id (c_task_id cm) w1 of
               (None, w2) \<Rightarrow> (Inl (HTTPException 403 ''Forbidden''), w2)
             | (Some task, w2) \<Rightarrow>
                 if t_owner_id task \<noteq> u_id current_user
                 then (Inl (HTTPException 403 ''Forbidden''), w2)
                 else (Inr cm, w2))
          else (Inr cm, w1))"

definition update_comment :: "int \<Rightarrow> string \<Rightarrow> user \<Rightarrow> world \<Rightarrow> (exn + comment) \<times> world" where
  "update_comment comment_id content current_user w0 =
     (case get_comment_by_id comment_id w0 of
        (None, w1) \<Rightarrow> (Inl (HTTPException 404 ''Comment not found''), w1)
      | (Some cm, w1) \<Rightarrow>
          if u_role current_user \<noteq> ''admin'' \<and> c_user_id cm \<noteq> u_id current_user
          then (Inl (HTTPException 403 ''Forbidden''), w1)
          else
            (case crud_update_comment cm content w1 of
               (updated_comment, w2) \<Rightarrow>
                 (case await_cache_delete_pattern ''comments:*'' w2 of
                    (Inl e, w3) \<Rightarrow> (Inl e, w3)
                  | (Inr _, w3) \<Rightarrow>
                      (case await_cache_delete (''task:'' @ str_int (c_task_id cm)) w3 of
                         (Inl e, w4) \<Rightarrow> (Inl e, w4)
                       | (Inr _, w4) \<Rightarrow> (Inr updated_comment, w4)))))"

definition delete_comment :: "int \<Rightarrow> user \<Rightarrow> world \<Rightarrow> (exn + unit) \<times> world" where
  "delete_comment comment_id current_user w0 =
     (case get_comment_by_id comment_id w0 of
        (None, w1) \<Rightarrow> (Inl (HTTPException 404 ''Comment not found''), w1)
      | (Some cm, w1) \<Rightarrow>
          if u_role current_user \<noteq> ''admin'' \<and> c_user_id cm \<noteq> u_id current_user
          then (Inl (HTTPException 403 ''Forbidden''), w1)
          else
            (let task_id = c_task_id cm;
                 w2 = crud_delete_comment cm w1
             in case await_cache_delete_pattern ''comments:*'' w2 of
                  (Inl e, w3) \<Rightarrow> (Inl e, w3)
                | (Inr _, w3) \<Rightarrow>
                    (case await_cache_delete (''task:'' @ str_int task_id) w3 of
                       (Inl e, w4) \<Rightarrow> (Inl e, w4)
                     | (Inr _, w4) \<Rightarrow> (Inr (), w4))))"


section \<open>worker.py and celery_app/helpers.py: the enrichment jobs\<close>

text \<open>
  The outcome of one \<open>GET\<close> of the external document followed by \<open>raise_for_status\<close>
  and \<open>json()\<close>: a document, an exception of the retried kinds (\<open>httpx.RequestError\<close>,
  \<open>httpx.HTTPStatusError\<close>), or any other exception.
\<close>

datatype fetch_outcome = FetchOk metadata | FetchTransportError | FetchOtherError

datatype raised = TransportError | OtherError

datatype job_exn = RetryError | Raised raised

text \<open>The body of \<open>_fetch_task_metadata_async\<close>, one attempt.\<close>

definition fetch_body :: "fetch_outcome \<Rightarrow> int \<Rightarrow> world \<Rightarrow> raised option \<times> world" where
  "fetch_body outcome task_id w0 =
     (let w = emit (ExternalGet task_id) w0
      in case outcome of
           FetchOk metadata \<Rightarrow>
             (case crud_get_task_by_id task_id w of
                (Some task, w1) \<Rightarrow> (None, update_task_metadata task metadata w1)
              | (None, w1) \<Rightarrow> (None, w1))
         | FetchTransportError \<Rightarrow> (Some TransportError, w)
         | FetchOtherError \<Rightarrow> (Some OtherError, w))"

text \<open>
  The \<open>@retry\<close> decorator: \<open>stop_after_attempt(3)\<close>, retrying on the two transport
  exception types only; when the stop condition holds after a retried failure it raises
  \<open>RetryError\<close>. \<open>ext k\<close> is the outcome of the external call on attempt \<open>k\<close>. The result
  carries the number of attempts made.
\<close>

function retrying ::
  "nat \<Rightarrow> (nat \<Rightarrow> fetch_outcome) \<Rightarrow> int \<Rightarrow> world \<Rightarrow> job_exn option \<times> world \<times> nat" where
  "retrying attempt_number ext task_id w =
     (case fetch_body (ext attempt_number) task_id w of
        (None, w1) \<Rightarrow> (None, w1, attempt_number)
      | (Some OtherError, w1) \<Rightarrow> (Some (Raised OtherError), w1, attempt_number)
      | (Some TransportError, w1) \<Rightarrow>
          if attempt_number \<ge> 3 then (Some RetryError, w1, attempt_number)
          else retrying (attempt_number + 1) ext task_id w1)"
  by pat_completeness auto
termination
  by (relation "measure (\<lambda>(k, ext, task_id, w). 3 - k)") auto

declare retrying.simps [simp del]

definition fetch_task_metadata ::
  "(nat \<Rightarrow> fetch_outcome) \<Rightarrow> int \<Rightarrow> world \<Rightarrow> job_exn option \<times> world \<times> nat" where
  "fetch_task_metadata ext task_id w = retrying 1 ext task_id w"

text \<open>helpers.py: one \<open>GET\<close> of the fixed document \<open>todos/1\<close>; the response's status code
  and document, or an exception.\<close>

datatype http_result = GetRaises | GetResponse nat metadata

definition fetch_external_data_and_update ::
  "http_result \<Rightarrow> int \<Rightarrow> world \<Rightarrow> (exn + unit) \<times> world" where
  "fetch_external_data_and_update r task_id w0 =
     (let w = emit (ExternalGet 1) w0
      in case r of
        GetRaises \<Rightarrow> (Inl (Unhandled ''httpx''), w)
      | GetResponse code data \<Rightarrow>
          if code = 200 then
            (let task_data =
                   no_updates\<lparr>up_description :=
                                Some (Some (py_str (dict_get data ''title'') @ '' (fetched from API)'')),
                              up_task_metadata := Some (Some data)\<rparr>
             in case crud_update_task task_id task_data w of
                  (Inl e, w1) \<Rightarrow> (Inl e, w1)
                | (Inr _, w1) \<Rightarrow> (Inr (), w1))
          else (Inr (), w))"


section \<open>Predicates on runs\<close>

text \<open>The effects a request added to the record.\<close>

definition events_since :: "world \<Rightarrow> world \<Rightarrow> event list" where
  "events_since w0 w1 = drop (length (trace w0)) (trace w1)"

fun is_invalidation :: "event \<Rightarrow> bool" where
  "is_invalidation (CacheDelete k) = True"
| "is_invalidation (CacheDeletePattern p) = True"
| "is_invalidation e = False"

text \<open>No invalidation is issued before the first commit.\<close>

fun invalidation_after_commit :: "event list \<Rightarrow> bool" where
  "invalidation_after_commit [] = True"
| "invalidation_after_commit (e # es) =
     (if e = DbCommit then True else \<not> is_invalidation e \<and> invalidation_after_commit es)"

text \<open>A commit occurs, no invalidation precedes it, and an invalidation follows it.\<close>

fun commit_then_invalidation :: "event list \<Rightarrow> bool" where
  "commit_then_invalidation [] = False"
| "commit_then_invalidation (e # es) =
     (if e = DbCommit then list_ex is_invalidation es
      else \<not> is_invalidation e \<and> commit_then_invalidation es)"


text \<open>The components of a job's result.\<close>

definition job_raised :: "job_exn option \<times> world \<times> nat \<Rightarrow> job_exn option" where
  "job_raised r = fst r"

definition job_world :: "job_exn option \<times> world \<times> nat \<Rightarrow> world" where
  "job_world r = fst (snd r)"

definition job_attempts :: "job_exn option \<times> world \<times> nat \<Rightarrow> nat" where
  "job_attempts r = snd (snd r)"



text \<open>The cache key of a list request, as \<open>get_tasks\<close> derives it.\<close>

definition list_request_key :: "env \<Rightarrow> task_query \<Rightarrow> user \<Rightarrow> string" where
  "list_request_key ev q current_user =
     (let is_admin = (u_role current_user = ''admin'')
      in make_task_cache_key (py_hash ev) (u_id current_user)
           (list_cache_filters q
              \<lparr>f_status = q_status q,
               f_owner_id = (if is_admin then q_owner_id q else None),
               f_title_contains = q_title_contains q,
               f_created_after = q_created_after q,
               f_created_before = q_created_before q\<rparr>
              is_admin))"

text \<open>
  Requests as data, and the world after serving a sequence of them. Besides the nine
  handlers there are the two background jobs (with the outcomes of the external calls),
  the passing of time, and a change of the backend's condition. The caller of a request
  is the authenticated principal, with the role it has at that moment.
\<close>

datatype request =
    CreateTask TaskCreate "string option"
  | GetTasks task_query
  | GetTask int
  | UpdateTask int task_updates
  | DeleteTask int
  | CreateComment CommentCreate
  | GetComment int
  | UpdateComment int string
  | DeleteComment int
  | Enrich fetch_outcome fetch_outcome fetch_outcome int
  | EnrichHelper http_result int
  | Tick int
  | Backend "bool list" bool

fun serve :: "env \<Rightarrow> user \<Rightarrow> request \<Rightarrow> world \<Rightarrow> world" where
  "serve ev cu (CreateTask task_in key) w = snd (create_task task_in key cu w)"
| "serve ev cu (GetTasks q) w = snd (get_tasks ev q cu w)"
| "serve ev cu (GetTask task_id) w = snd (get_task task_id cu w)"
| "serve ev cu (UpdateTask task_id update_data) w = snd (update_task task_id update_data cu w)"
| "serve ev cu (DeleteTask task_id) w = snd (delete_task task_id cu w)"
| "serve ev cu (CreateComment comment_in) w = snd (create_comment comment_in cu w)"
| "serve ev cu (GetComment comment_id) w = snd (get_comment comment_id cu w)"
| "serve ev cu (UpdateComment comment_id content) w = snd (update_comment comment_id content cu w)"
| "serve ev cu (DeleteComment comment_id) w = snd (delete_comment comment_id cu w)"
| "serve ev cu (Enrich o1 o2 o3 task_id) w =
     job_world (fetch_task_metadata (\<lambda>k. if k = 1 then o1 else if k = 2 then o2 else o3)
                  task_id w)"
| "serve ev cu (EnrichHelper r task_id) w = snd (fetch_external_data_and_update r task_id w)"
| "serve ev cu (Tick t) w = w\<lparr>now := t\<rparr>"
| "serve ev cu (Backend fs ok) w = w\<lparr>cache := (cache w)\<lparr>faults := fs, from_url_ok := ok\<rparr>\<rparr>"

fun serve_all :: "env \<Rightarrow> (user \<times> request) list \<Rightarrow> world \<Rightarrow> world" where
  "serve_all ev [] w = w"
| "serve_all ev (r # rest) w = serve_all ev rest (serve ev (fst r) (snd r) w)"

text \<open>
  The keys of the list pages of principal \<open>u\<close> start with \<open>tasks:user:u:\<close>. The cache
  keeps the pages of \<open>u\<close> apart when every page stored under such a key lists only
  tasks that \<open>u\<close> owns.
\<close>

definition user_key_prefix :: "int \<Rightarrow> string" where
  "user_key_prefix u = ''tasks:user:'' @ str_int u @ '':''"

definition own_entry :: "int \<Rightarrow> entry \<Rightarrow> bool" where
  "own_entry u e =
     (case fst (snd e) of
        CTask t \<Rightarrow> True
      | CPage pg \<Rightarrow>
          take (length (user_key_prefix u)) (fst e) \<noteq> user_key_prefix u
          \<or> list_all (\<lambda>t. t_owner_id t = u) (p_items pg))"

definition own_pages :: "int \<Rightarrow> world \<Rightarrow> bool" where
  "own_pages u w = list_all (own_entry u) (entries (cache w))"

text \<open>A key is invalidated by a list of effects when one of them deletes it, by name or
  through a pattern that matches it.\<close>

fun invalidates :: "event \<Rightarrow> string \<Rightarrow> bool" where
  "invalidates (CacheDelete k) key = (k = key)"
| "invalidates (CacheDeletePattern p) key = glob_match p key"
| "invalidates e key = False"

section \<open>Example data\<close>

definition ex_task :: task where
  "ex_task = \<lparr>t_id = 5, t_title = ''write report'', t_description = Some ''draft'',
              t_status = ''pending'', t_owner_id = 7, t_created_at = 10,
              t_task_metadata = None\<rparr>"

definition ex_comment :: comment where
  "ex_comment = \<lparr>c_id = 3, c_content = ''looks fine'', c_task_id = 5, c_user_id = 8,
                 c_created_at = 11\<rparr>"

definition ex_owner :: user where
  "ex_owner = \<lparr>u_id = 7, u_role = ''user''\<rparr>"

definition ex_other :: user where
  "ex_other = \<lparr>u_id = 8, u_role = ''user''\<rparr>"

definition ex_admin :: user where
  "ex_admin = \<lparr>u_id = 1, u_role = ''admin''\<rparr>"

definition ex_cache :: RedisCache where
  "ex_cache = \<lparr>redis_client = True, from_url_ok = True, faults = [], entries = [],
               error_log = []\<rparr>"

definition ex_world :: world where
  "ex_world = \<lparr>tasks = [ex_task], comments = [ex_comment], next_task_id = 6,
               next_comment_id = 4, cache = ex_cache, now = 100, trace = []\<rparr>"

definition ex_env :: env where
  "ex_env = \<lparr>py_hash = (\<lambda>s. 42), sql_ilike = (\<lambda>pattern v. True),
             fromisoformat = (\<lambda>s. if s = ''2025-08-17'' then Some 50 else None)\<rparr>"

definition ex_status_update :: task_updates where
  "ex_status_update = no_updates\<lparr>up_status := Some (Some ''done'')\<rparr>"

definition ex_comment_in :: CommentCreate where
  "ex_comment_in = \<lparr>cc_task_id = 5, cc_content = ''second look''\<rparr>"

definition ex_world_cached :: world where
  "ex_world_cached =
     ex_world\<lparr>cache := ex_cache\<lparr>entries := [(''task:5'', CTask ex_task, 700)]\<rparr>\<rparr>"

definition ex_stranger :: user where
  "ex_stranger = \<lparr>u_id = 9, u_role = ''user''\<rparr>"


definition ex_query :: task_query where
  "ex_query = \<lparr>q_page = 1, q_page_size = 20, q_status = Some ''pending'', q_owner_id = None,
               q_title_contains = None, q_created_after = None, q_created_before = None\<rparr>"

definition ex_task2 :: task where
  "ex_task2 = \<lparr>t_id = 6, t_title = ''book flights'', t_description = None,
               t_status = ''pending'', t_owner_id = 8, t_created_at = 20,
               t_task_metadata = None\<rparr>"

definition ex_world2 :: world where
  "ex_world2 = ex_world\<lparr>tasks := [ex_task, ex_task2], next_task_id := 7\<rparr>"

definition ex_task_in :: TaskCreate where
  "ex_task_in = \<lparr>tc_title = ''pay invoice'', tc_description = None, tc_status = ''pending''\<rparr>"

definition ex_created :: "int \<Rightarrow> task" where
  "ex_created i = \<lparr>t_id = i, t_title = ''pay invoice'', t_description = None,
                    t_status = ''pending'', t_owner_id = 7, t_created_at = 100,
                    t_task_metadata = None\<rparr>"

definition ex_world_unreachable_cache :: world where
  "ex_world_unreachable_cache =
     ex_world\<lparr>cache := ex_cache\<lparr>faults := [True, True, True, True, True, True]\<rparr>\<rparr>"

text \<open>In a store where task 5 has no comment, the owner lists the tasks, which caches
  the page; then an admin deletes the task, or updates it.\<close>

definition ex_world_plain :: world where
  "ex_world_plain = ex_world\<lparr>comments := []\<rparr>"

definition ex_world_listed :: world where
  "ex_world_listed = snd (get_tasks ex_env ex_query ex_owner ex_world_plain)"

definition ex_world_deleted :: world where
  "ex_world_deleted = snd (delete_task 5 ex_admin ex_world_listed)"

definition ex_world_updated :: world where
  "ex_world_updated = snd (update_task 5 ex_status_update ex_admin ex_world_listed)"

definition ex_page :: "task list \<Rightarrow> page" where
  "ex_page ts = \<lparr>p_items = ts, p_total = int (length ts), p_page = 1, p_page_size = 20,
                 p_total_pages = int (length ts), p_has_next = False, p_has_prev = False\<rparr>"

text \<open>An environment whose \<open>ILIKE\<close> matches a value against the pattern \<open>%value%\<close>
  only, and two list requests of the same caller.\<close>

definition ex_env_exact :: env where
  "ex_env_exact = \<lparr>py_hash = (\<lambda>s. int (length s)),
                   sql_ilike = (\<lambda>pattern v. pattern = ''%'' @ v @ ''%''),
                   fromisoformat = (\<lambda>s. None)\<rparr>"

definition ex_query_status_only :: task_query where
  "ex_query_status_only =
     ex_query\<lparr>q_status := Some ''pending_title_contains:write report''\<rparr>"

definition ex_query_status_and_title :: task_query where
  "ex_query_status_and_title =
     ex_query\<lparr>q_status := Some ''pending'', q_title_contains := Some ''write report''\<rparr>"

text \<open>An admin and then user 7 have listed the tasks of a store with tasks of two
  owners.\<close>

definition ex_requests :: "(user \<times> request) list" where
  "ex_requests = [(ex_admin, GetTasks ex_query), (ex_owner, GetTasks ex_query)]"

definition ex_world_served :: world where
  "ex_world_served = serve_all ex_env ex_requests ex_world2"


section \<open>The cache store never raises on a failing backend command\<close>

lemmas cache_defs = cache_get_def cache_set_def cache_delete_def cache_delete_pattern_def
  connect_def command_fails_def log_error_def

lemma cache_get_no_raise:
  "redis_client c \<or> from_url_ok c \<Longrightarrow> \<exists>r. fst (cache_get tm key c) = Inr r"
  by (auto simp: cache_defs split: list.splits bool.splits)

lemma cache_set_no_raise:
  "redis_client c \<or> from_url_ok c \<Longrightarrow> \<exists>r. fst (cache_set tm key v ttl c) = Inr r"
  by (auto simp: cache_defs split: list.splits bool.splits if_splits)

lemma cache_delete_no_raise:
  "redis_client c \<or> from_url_ok c \<Longrightarrow> \<exists>r. fst (cache_delete tm key c) = Inr r"
  by (auto simp: cache_defs redis_delete_def split: list.splits bool.splits)

lemma cache_delete_pattern_no_raise:
  "redis_client c \<or> from_url_ok c \<Longrightarrow> \<exists>r. fst (cache_delete_pattern tm pattern c) = Inr r"
  by (auto simp: cache_defs redis_delete_def Let_def split: list.splits bool.splits)

lemma cache_get_fault:
  "redis_client c \<or> from_url_ok c \<Longrightarrow> faults c = True # fs \<Longrightarrow>
   fst (cache_get tm key c) = Inr None
   \<and> entries (snd (cache_get tm key c)) = entries c
   \<and> error_log (snd (cache_get tm key c)) = error_log c @ [''Cache get error'']"
  by (auto simp: cache_defs)

lemma cache_set_fault:
  "redis_client c \<or> from_url_ok c \<Longrightarrow> faults c = True # fs \<Longrightarrow>
   fst (cache_set tm key v ttl c) = Inr False
   \<and> entries (snd (cache_set tm key v ttl c)) = entries c
   \<and> error_log (snd (cache_set tm key v ttl c)) = error_log c @ [''Cache set error'']"
  by (auto simp: cache_defs)

lemma cache_delete_fault:
  "redis_client c \<or> from_url_ok c \<Longrightarrow> faults c = True # fs \<Longrightarrow>
   fst (cache_delete tm key c) = Inr False
   \<and> entries (snd (cache_delete tm key c)) = entries c
   \<and> error_log (snd (cache_delete tm key c)) = error_log c @ [''Cache delete error'']"
  by (auto simp: cache_defs)

lemma cache_delete_pattern_fault:
  "redis_client c \<or> from_url_ok c \<Longrightarrow> faults c = True # fs \<Longrightarrow>
   fst (cache_delete_pattern tm pattern c) = Inr 0
   \<and> entries (snd (cache_delete_pattern tm pattern c)) = entries c
   \<and> error_log (snd (cache_delete_pattern tm pattern c))
       = error_log c @ [''Cache delete pattern error'']"
  by (auto simp: cache_defs)

lemma cache_delete_pattern_fault_on_delete:
  "redis_client c \<or> from_url_ok c \<Longrightarrow> faults c = False # True # fs \<Longrightarrow>
   fst (cache_delete_pattern tm pattern c) = Inr 0
   \<and> entries (snd (cache_delete_pattern tm pattern c)) = entries c"
  by (auto simp: cache_defs Let_def)

lemma cache_connect_raises:
  "\<not> redis_client c \<Longrightarrow> \<not> from_url_ok c \<Longrightarrow>
   cache_get tm key c = (Inl (Unhandled ''redis.from_url''), c)
   \<and> cache_set tm key v ttl c = (Inl (Unhandled ''redis.from_url''), c)
   \<and> cache_delete tm key c = (Inl (Unhandled ''redis.from_url''), c)
   \<and> cache_delete_pattern tm pattern c = (Inl (Unhandled ''redis.from_url''), c)"
  by (simp add: cache_defs)

text \<open>
  C6. Whenever a client exists or \<open>connect\<close> can create one (\<open>REDIS_URL\<close> is well
  formed), no operation of the cache store raises, whatever the backend commands do.
  The connection to the backend is established by the first command, inside the \<open>try\<close>
  block, so a backend that is unreachable when the client is new fails like any other
  command. When the first backend command raises, \<open>get\<close> returns the absent result,
  \<open>set\<close> and \<open>delete\<close> return \<open>False\<close>, \<open>delete_pattern\<close> returns 0 (also when
  its second command, the deletion, is the one that raises), the entries are untouched
  and the failure is logged, once.
\<close>

theorem cache_store_swallows_backend_failures:
  assumes "redis_client c \<or> from_url_ok c"
  shows "(\<exists>r. fst (cache_get tm key c) = Inr r)
      \<and> (\<exists>b. fst (cache_set tm key v ttl c) = Inr b)
      \<and> (\<exists>b. fst (cache_delete tm key c) = Inr b)
      \<and> (\<exists>n. fst (cache_delete_pattern tm pattern c) = Inr n)
      \<and> (\<forall>fs. faults c = True # fs \<longrightarrow>
            fst (cache_get tm key c) = Inr None
            \<and> entries (snd (cache_get tm key c)) = entries c
            \<and> error_log (snd (cache_get tm key c)) = error_log c @ [''Cache get error'']
            \<and> fst (cache_set tm key v ttl c) = Inr False
            \<and> entries (snd (cache_set tm key v ttl c)) = entries c
            \<and> error_log (snd (cache_set tm key v ttl c)) = error_log c @ [''Cache set error'']
            \<and> fst (cache_delete tm key c) = Inr False
            \<and> entries (snd (cache_delete tm key c)) = entries c
            \<and> error_log (snd (cache_delete tm key c)) = error_log c @ [''Cache delete error'']
            \<and> fst (cache_delete_pattern tm pattern c) = Inr 0
            \<and> entries (snd (cache_delete_pattern tm pattern c)) = entries c
            \<and> error_log (snd (cache_delete_pattern tm pattern c))
                = error_log c @ [''Cache delete pattern error''])
      \<and> (\<forall>fs. faults c = False # True # fs \<longrightarrow>
            fst (cache_delete_pattern tm pattern c) = Inr 0
            \<and> entries (snd (cache_delete_pattern tm pattern c)) = entries c)"
proof (intro conjI impI allI)
  fix fs assume f: "faults c = False # True # fs"
  from cache_delete_pattern_fault_on_delete [OF assms f]
  show "fst (cache_delete_pattern tm pattern c) = Inr 0"
    and "entries (snd (cache_delete_pattern tm pattern c)) = entries c"
    by simp_all
next
  fix fs assume f: "faults c = True # fs"
  from cache_get_fault [OF assms f]
  show "fst (cache_get tm key c) = Inr None"
    and "entries (snd (cache_get tm key c)) = entries c"
    and "error_log (snd (cache_get tm key c)) = error_log c @ [''Cache get error'']"
    by simp_all
  from cache_set_fault [OF assms f]
  show "fst (cache_set tm key v ttl c) = Inr False"
    and "entries (snd (cache_set tm key v ttl c)) = entries c"
    and "error_log (snd (cache_set tm key v ttl c)) = error_log c @ [''Cache set error'']"
    by simp_all
  from cache_delete_fault [OF assms f]
  show "fst (cache_delete tm key c) = Inr False"
    and "entries (snd (cache_delete tm key c)) = entries c"
    and "error_log (snd (cache_delete tm key c)) = error_log c @ [''Cache delete error'']"
    by simp_all
  from cache_delete_pattern_fault [OF assms f]
  show "fst (cache_delete_pattern tm pattern c) = Inr 0"
    and "entries (snd (cache_delete_pattern tm pattern c)) = entries c"
    and "error_log (snd (cache_delete_pattern tm pattern c))
          = error_log c @ [''Cache delete pattern error'']"
    by simp_all
next
  show "\<exists>r. fst (cache_get tm key c) = Inr r" by (rule cache_get_no_raise [OF assms])
  show "\<exists>b. fst (cache_set tm key v ttl c) = Inr b" by (rule cache_set_no_raise [OF assms])
  show "\<exists>b. fst (cache_delete tm key c) = Inr b" by (rule cache_delete_no_raise [OF assms])
  show "\<exists>n. fst (cache_delete_pattern tm pattern c) = Inr n"
    by (rule cache_delete_pattern_no_raise [OF assms])
qed

text \<open>The witness: a new client whose first command finds the backend unreachable, and
  an established client whose command fails.\<close>

theorem cache_store_swallows_backend_failures_witness:
  "fst (cache_get 100 ''task:5'' (ex_cache\<lparr>redis_client := False, faults := [True]\<rparr>)) = Inr None
   \<and> fst (cache_set 100 ''task:5'' (CTask ex_task) 600
            (ex_cache\<lparr>redis_client := False, faults := [True]\<rparr>)) = Inr False
   \<and> fst (cache_delete 100 ''task:5'' (ex_cache\<lparr>faults := [True]\<rparr>)) = Inr False
   \<and> fst (cache_delete_pattern 100 ''tasks:user:7:*'' (ex_cache\<lparr>faults := [True]\<rparr>)) = Inr 0"
proof -
  have new: "redis_client (ex_cache\<lparr>redis_client := False, faults := [True]\<rparr>)
             \<or> from_url_ok (ex_cache\<lparr>redis_client := False, faults := [True]\<rparr>)"
    and old: "redis_client (ex_cache\<lparr>faults := [True]\<rparr>) \<or> from_url_ok (ex_cache\<lparr>faults := [True]\<rparr>)"
    by (simp_all add: ex_cache_def)
  have f1: "faults (ex_cache\<lparr>redis_client := False, faults := [True]\<rparr>) = True # []"
    and f2: "faults (ex_cache\<lparr>faults := [True]\<rparr>) = True # []"
    by simp_all
  from cache_store_swallows_backend_failures
         [OF new, of 100 "''task:5''" "CTask ex_task" 600 "''tasks:user:7:*''"] f1
  have "fst (cache_get 100 ''task:5'' (ex_cache\<lparr>redis_client := False, faults := [True]\<rparr>))
          = Inr None"
    and "fst (cache_set 100 ''task:5'' (CTask ex_task) 600
               (ex_cache\<lparr>redis_client := False, faults := [True]\<rparr>)) = Inr False"
    by blast+
  moreover
  from cache_store_swallows_backend_failures
         [OF old, of 100 "''task:5''" "CTask ex_task" 600 "''tasks:user:7:*''"] f2
  have "fst (cache_delete 100 ''task:5'' (ex_cache\<lparr>faults := [True]\<rparr>)) = Inr False"
    and "fst (cache_delete_pattern 100 ''tasks:user:7:*'' (ex_cache\<lparr>faults := [True]\<rparr>)) = Inr 0"
    by blast+
  ultimately show ?thesis by blast
qed


section \<open>What each call adds to the record of effects\<close>

lemmas await_defs = await_cache_get_def await_cache_set_def await_cache_delete_def
  await_cache_delete_pattern_def await_get_idempotency_def await_set_idempotency_def emit_def

lemmas crud_defs = crud_create_task_def crud_get_task_by_id_def crud_update_task_def
  crud_delete_task_def update_task_metadata_def crud_create_comment_def get_comment_by_id_def
  crud_delete_comment_def crud_update_comment_def emit_def

lemma trace_await_cache_get:
  "await_cache_get key w = (r, w') \<Longrightarrow> trace w' = trace w @ [CacheGet key]"
  by (auto simp: await_cache_get_def emit_def split: prod.splits)

lemma trace_await_cache_set:
  "await_cache_set key v ttl w = (r, w') \<Longrightarrow> trace w' = trace w @ [CacheSet key ttl]"
  by (auto simp: await_cache_set_def emit_def split: prod.splits)

lemma trace_await_cache_delete:
  "await_cache_delete key w = (r, w') \<Longrightarrow> trace w' = trace w @ [CacheDelete key]"
  by (auto simp: await_cache_delete_def emit_def split: prod.splits)

lemma trace_await_cache_delete_pattern:
  "await_cache_delete_pattern pattern w = (r, w')
   \<Longrightarrow> trace w' = trace w @ [CacheDeletePattern pattern]"
  by (auto simp: await_cache_delete_pattern_def emit_def split: prod.splits)

lemma trace_await_get_idempotency:
  "await_get_idempotency k w = (r, w')
   \<Longrightarrow> trace w' = trace w @ [CacheGet (''idempotency:'' @ k)]"
  by (auto simp: await_get_idempotency_def emit_def split: prod.splits)

lemma trace_await_set_idempotency:
  "await_set_idempotency k v w = (r, w')
   \<Longrightarrow> trace w' = trace w @ [CacheSet (''idempotency:'' @ k) 86400]"
  by (auto simp: await_set_idempotency_def emit_def split: prod.splits)

lemma trace_get_tasks_with_pagination:
  "get_tasks_with_pagination ev pagination filters uid is_admin w = (Inr x, w')
   \<Longrightarrow> trace w' = trace w @ [DbExecute, DbExecute]"
  by (auto simp: get_tasks_with_pagination_def Let_def emit_def split: sum.splits)

lemmas trace_await = trace_await_cache_get trace_await_cache_set trace_await_cache_delete
  trace_await_cache_delete_pattern trace_await_get_idempotency trace_await_set_idempotency


section \<open>Invalidation follows the commit\<close>

lemma update_task_order:
  "invalidation_after_commit (events_since w (snd (update_task task_id update_data current_user w)))"
  by (auto simp: update_task_def events_since_def crud_defs logger_info_def
      split: prod.splits sum.splits option.splits if_splits dest!: trace_await)

lemma delete_task_order:
  "invalidation_after_commit (events_since w (snd (delete_task task_id current_user w)))"
  by (auto simp: delete_task_def events_since_def crud_defs logger_info_def
      split: prod.splits sum.splits option.splits if_splits dest!: trace_await)

lemma create_comment_order:
  "invalidation_after_commit (events_since w (snd (create_comment comment_in current_user w)))"
  by (auto simp: create_comment_def events_since_def crud_defs Let_def
      split: prod.splits sum.splits option.splits dest!: trace_await)

lemma update_comment_order:
  "invalidation_after_commit (events_since w (snd (update_comment comment_id content current_user w)))"
  by (auto simp: update_comment_def events_since_def crud_defs Let_def
      split: prod.splits sum.splits option.splits dest!: trace_await)

lemma delete_comment_order:
  "invalidation_after_commit (events_since w (snd (delete_comment comment_id current_user w)))"
  by (auto simp: delete_comment_def events_since_def crud_defs Let_def
      split: prod.splits sum.splits option.splits dest!: trace_await)

lemma update_task_success:
  "fst (update_task task_id update_data current_user w) = Inr t \<Longrightarrow>
   commit_then_invalidation (events_since w (snd (update_task task_id update_data current_user w)))"
  by (auto simp: update_task_def events_since_def crud_defs logger_info_def
      split: prod.splits sum.splits option.splits if_splits dest!: trace_await)

lemma delete_task_success:
  "fst (delete_task task_id current_user w) = Inr u \<Longrightarrow>
   commit_then_invalidation (events_since w (snd (delete_task task_id current_user w)))"
  by (auto simp: delete_task_def events_since_def crud_defs logger_info_def
      split: prod.splits sum.splits option.splits if_splits dest!: trace_await)

lemma create_comment_success:
  "fst (create_comment comment_in current_user w) = Inr cm \<Longrightarrow>
   commit_then_invalidation (events_since w (snd (create_comment comment_in current_user w)))"
  by (auto simp: create_comment_def events_since_def crud_defs Let_def
      split: prod.splits sum.splits option.splits if_splits dest!: trace_await)

lemma update_comment_success:
  "fst (update_comment comment_id content current_user w) = Inr cm \<Longrightarrow>
   commit_then_invalidation (events_since w (snd (update_comment comment_id content current_user w)))"
  by (auto simp: update_comment_def events_since_def crud_defs Let_def
      split: prod.splits sum.splits option.splits if_splits dest!: trace_await)

lemma delete_comment_success:
  "fst (delete_comment comment_id current_user w) = Inr u \<Longrightarrow>
   commit_then_invalidation (events_since w (snd (delete_comment comment_id current_user w)))"
  by (auto simp: delete_comment_def events_since_def crud_defs Let_def
      split: prod.splits sum.splits option.splits if_splits dest!: trace_await)

lemma update_task_ran_through:
  "fst (update_task task_id update_data current_user w) = Inl (Unhandled ''NameError'') \<Longrightarrow>
   commit_then_invalidation (events_since w (snd (update_task task_id update_data current_user w)))"
  by (auto simp: update_task_def events_since_def crud_defs logger_info_def
      split: prod.splits sum.splits option.splits if_splits dest!: trace_await)

lemma delete_task_ran_through:
  "fst (delete_task task_id current_user w) = Inl (Unhandled ''NameError'') \<Longrightarrow>
   commit_then_invalidation (events_since w (snd (delete_task task_id current_user w)))"
  by (auto simp: delete_task_def events_since_def crud_defs logger_info_def
      split: prod.splits sum.splits option.splits if_splits dest!: trace_await)

text \<open>
  C7. In a task update, a task deletion, a comment creation, a comment update and a
  comment deletion, whatever the outcome, no cache invalidation is issued before the
  store has committed; and a request that returns normally has committed and then
  invalidated. So has a task update or deletion that ran to its last statement, the
  log call that raises \<open>NameError\<close>.
\<close>

theorem invalidation_only_after_commit:
  "invalidation_after_commit
     (events_since w (snd (update_task task_id update_data current_user w)))
   \<and> invalidation_after_commit (events_since w (snd (delete_task task_id current_user w)))
   \<and> invalidation_after_commit (events_since w (snd (create_comment comment_in current_user w)))
   \<and> invalidation_after_commit
       (events_since w (snd (update_comment comment_id content current_user w)))
   \<and> invalidation_after_commit (events_since w (snd (delete_comment comment_id current_user w)))
   \<and> (\<forall>t. fst (update_task task_id update_data current_user w) = Inr t \<longrightarrow>
        commit_then_invalidation
          (events_since w (snd (update_task task_id update_data current_user w))))
   \<and> (\<forall>u. fst (delete_task task_id current_user w) = Inr u \<longrightarrow>
        commit_then_invalidation (events_since w (snd (delete_task task_id current_user w))))
   \<and> (\<forall>cm. fst (create_comment comment_in current_user w) = Inr cm \<longrightarrow>
        commit_then_invalidation
          (events_since w (snd (create_comment comment_in current_user w))))
   \<and> (\<forall>cm. fst (update_comment comment_id content current_user w) = Inr cm \<longrightarrow>
        commit_then_invalidation
          (events_since w (snd (update_comment comment_id content current_user w))))
   \<and> (\<forall>u. fst (delete_comment comment_id current_user w) = Inr u \<longrightarrow>
        commit_then_invalidation
          (events_since w (snd (delete_comment comment_id current_user w))))
   \<and> (fst (update_task task_id update_data current_user w) = Inl (Unhandled ''NameError'') \<longrightarrow>
        commit_then_invalidation
          (events_since w (snd (update_task task_id update_data current_user w))))
   \<and> (fst (delete_task task_id current_user w) = Inl (Unhandled ''NameError'') \<longrightarrow>
        commit_then_invalidation (events_since w (snd (delete_task task_id current_user w))))"
  by (intro conjI allI impI)
     (rule update_task_order delete_task_order create_comment_order update_comment_order
        delete_comment_order
      | erule update_task_success delete_task_success create_comment_success
        update_comment_success delete_comment_success update_task_ran_through
        delete_task_ran_through)+

theorem invalidation_only_after_commit_witness:
  "commit_then_invalidation
     (events_since ex_world (snd (update_task 5 ex_status_update ex_admin ex_world)))
   \<and> commit_then_invalidation
       (events_since ex_world_plain (snd (delete_task 5 ex_admin ex_world_plain)))
   \<and> commit_then_invalidation
       (events_since ex_world (snd (create_comment ex_comment_in ex_admin ex_world)))
   \<and> commit_then_invalidation
       (events_since ex_world (snd (update_comment 3 ''reworded'' ex_admin ex_world)))
   \<and> commit_then_invalidation (events_since ex_world (snd (delete_comment 3 ex_admin ex_world)))"
proof -
  have a: "fst (update_task 5 ex_status_update ex_admin ex_world) = Inl (Unhandled ''NameError'')"
    by code_simp
  have b: "fst (delete_task 5 ex_admin ex_world_plain) = Inl (Unhandled ''NameError'')"
    by code_simp
  have c: "fst (create_comment ex_comment_in ex_admin ex_world)
             = Inr \<lparr>c_id = 4, c_content = ''second look'', c_task_id = 5, c_user_id = 1,
                    c_created_at = 100\<rparr>"
    by code_simp
  have d: "fst (update_comment 3 ''reworded'' ex_admin ex_world)
             = Inr (ex_comment\<lparr>c_content := ''reworded''\<rparr>)"
    by code_simp
  have e: "fst (delete_comment 3 ex_admin ex_world) = Inr ()"
    by code_simp
  from a c d e
    invalidation_only_after_commit
      [where w = ex_world and task_id = 5 and update_data = ex_status_update
         and current_user = ex_admin and comment_in = ex_comment_in and comment_id = 3
         and content = "''reworded''"]
  have "commit_then_invalidation
          (events_since ex_world (snd (update_task 5 ex_status_update ex_admin ex_world)))"
    and "commit_then_invalidation
           (events_since ex_world (snd (create_comment ex_comment_in ex_admin ex_world)))"
    and "commit_then_invalidation
           (events_since ex_world (snd (update_comment 3 ''reworded'' ex_admin ex_world)))"
    and "commit_then_invalidation
           (events_since ex_world (snd (delete_comment 3 ex_admin ex_world)))"
    by simp_all
  moreover
  from b
    invalidation_only_after_commit
      [where w = ex_world_plain and task_id = 5 and current_user = ex_admin]
  have "commit_then_invalidation
          (events_since ex_world_plain (snd (delete_task 5 ex_admin ex_world_plain)))"
    by simp
  ultimately show ?thesis by simp
qed


section \<open>Visibility of tasks and comments\<close>


lemma get_task_returns_own:
  "u_role current_user \<noteq> ''admin'' \<Longrightarrow> get_task task_id current_user w = (Inr t, w')
   \<Longrightarrow> t_owner_id t = u_id current_user"
  by (auto simp: get_task_def Let_def await_defs crud_defs logger_info_def
      split: prod.splits sum.splits option.splits cached.splits if_splits)

lemma get_task_cache_hit_forbidden:
  "u_role current_user \<noteq> ''admin''
   \<Longrightarrow> fst (await_cache_get (make_task_detail_cache_key task_id) w) = Inr (Some (CTask t))
   \<Longrightarrow> t_owner_id t \<noteq> u_id current_user
   \<Longrightarrow> fst (get_task task_id current_user w) = Inl (HTTPException 403 ''Forbidden'')"
  by (auto simp: get_task_def Let_def split: prod.splits sum.splits option.splits cached.splits)

lemma get_task_store_forbidden:
  "u_role current_user \<noteq> ''admin''
   \<Longrightarrow> fst (await_cache_get (make_task_detail_cache_key task_id) w) = Inr None
   \<Longrightarrow> find (\<lambda>t. t_id t = task_id) (tasks w) = Some t
   \<Longrightarrow> t_owner_id t \<noteq> u_id current_user
   \<Longrightarrow> fst (get_task task_id current_user w) = Inl (HTTPException 403 ''Forbidden'')"
  by (auto simp: get_task_def Let_def await_defs crud_defs
      split: prod.splits sum.splits option.splits cached.splits)

lemma await_cache_get_raises:
  "await_cache_get key w = (Inl e, w') \<Longrightarrow> e = Unhandled ''redis.from_url''"
  by (auto simp: await_cache_get_def cache_get_def connect_def command_fails_def
      split: prod.splits if_splits list.splits bool.splits)

lemma await_cache_set_raises:
  "await_cache_set key v ttl w = (Inl e, w') \<Longrightarrow> e = Unhandled ''redis.from_url''"
  by (auto simp: await_cache_set_def cache_set_def connect_def command_fails_def
      split: prod.splits if_splits list.splits bool.splits)

lemma await_cache_get_keeps_store:
  "await_cache_get key w = (r, w') \<Longrightarrow> tasks w' = tasks w \<and> comments w' = comments w"
  by (auto simp: await_cache_get_def emit_def split: prod.splits)

text \<open>A request for a task that ran to the log call before its \<open>return\<close> has passed the
  owner check on the payload it was about to return.\<close>

lemma get_task_ran_through:
  assumes na: "u_role current_user \<noteq> ''admin''"
    and res: "fst (get_task task_id current_user w) = Inl (Unhandled ''NameError'')"
  shows "\<exists>t. (fst (await_cache_get (make_task_detail_cache_key task_id) w)
                 = Inr (Some (CTask t))
               \<or> fst (await_cache_get (make_task_detail_cache_key task_id) w) = Inr None
                 \<and> find (\<lambda>t. t_id t = task_id) (tasks w) = Some t)
             \<and> t_owner_id t = u_id current_user"
proof -
  let ?key = "make_task_detail_cache_key task_id"
  obtain r w1 where g: "await_cache_get ?key w = (r, w1)"
    by (cases "await_cache_get ?key w")
  note st = await_cache_get_keeps_store [OF g]
  show ?thesis
  proof (cases r)
    case (Inl e)
    with g await_cache_get_raises have "e = Unhandled ''redis.from_url''" by blast
    with res g Inl show ?thesis by (simp add: get_task_def)
  next
    case (Inr v)
    show ?thesis
    proof (cases v)
      case (Some cv)
      with res g Inr na show ?thesis
        by (cases cv) (auto simp: get_task_def logger_info_def split: if_splits)
    next
      case None
      with res g Inr na st show ?thesis
        by (auto simp: get_task_def logger_info_def crud_get_task_by_id_def
            split: if_splits option.splits prod.splits sum.splits
            dest: await_cache_set_raises)
    qed
  qed
qed

lemma get_comment_returns_visible:
  "u_role current_user \<noteq> ''admin'' \<Longrightarrow> get_comment comment_id current_user w = (Inr cm, w')
   \<Longrightarrow> find (\<lambda>c. c_id c = comment_id) (comments w) = Some cm
       \<and> (c_user_id cm = u_id current_user
          \<or> (\<exists>task. find (\<lambda>t. t_id t = c_task_id cm) (tasks w) = Some task
                     \<and> t_owner_id task = u_id current_user))"
  by (auto simp: get_comment_def Let_def await_defs crud_defs
      split: prod.splits sum.splits option.splits if_splits)


text \<open>
  C2. For a caller whose role is not admin: a task returned by \<open>get_task\<close> has the
  caller as owner, whether it came from the cache or from the store; a cached payload
  with another owner, and on a miss a stored task with another owner, both give 403
  Forbidden; a comment returned by \<open>get_comment\<close> is the stored comment of that id and
  was either written by the caller or belongs to a task the caller owns. A request for
  a task that passes the owner check goes on to the log call, which raises
  \<open>NameError\<close>; also then the payload it had passed, the cached one or the stored row,
  has the caller as owner.
\<close>

theorem non_admin_reads_only_visible_entities:
  assumes "u_role current_user \<noteq> ''admin''"
  shows "(\<forall>t. fst (get_task task_id current_user w) = Inr t \<longrightarrow>
            t_owner_id t = u_id current_user)
       \<and> (\<forall>t. fst (await_cache_get (make_task_detail_cache_key task_id) w)
                  = Inr (Some (CTask t))
               \<and> t_owner_id t \<noteq> u_id current_user \<longrightarrow>
               fst (get_task task_id current_user w) = Inl (HTTPException 403 ''Forbidden''))
       \<and> (\<forall>t. fst (await_cache_get (make_task_detail_cache_key task_id) w) = Inr None
               \<and> find (\<lambda>t. t_id t = task_id) (tasks w) = Some t
               \<and> t_owner_id t \<noteq> u_id current_user \<longrightarrow>
               fst (get_task task_id current_user w) = Inl (HTTPException 403 ''Forbidden''))
       \<and> (\<forall>cm. fst (get_comment comment_id current_user w) = Inr cm \<longrightarrow>
               find (\<lambda>c. c_id c = comment_id) (comments w) = Some cm
               \<and> (c_user_id cm = u_id current_user
                  \<or> (\<exists>task. find (\<lambda>t. t_id t = c_task_id cm) (tasks w) = Some task
                             \<and> t_owner_id task = u_id current_user)))
       \<and> (fst (get_task task_id current_user w) = Inl (Unhandled ''NameError'') \<longrightarrow>
            (\<exists>t. (fst (await_cache_get (make_task_detail_cache_key task_id) w)
                     = Inr (Some (CTask t))
                   \<or> fst (await_cache_get (make_task_detail_cache_key task_id) w) = Inr None
                     \<and> find (\<lambda>t. t_id t = task_id) (tasks w) = Some t)
                 \<and> t_owner_id t = u_id current_user))"
proof (intro conjI allI impI)
  assume "fst (get_task task_id current_user w) = Inl (Unhandled ''NameError'')"
  from get_task_ran_through [OF assms this]
  show "\<exists>t. (fst (await_cache_get (make_task_detail_cache_key task_id) w)
                 = Inr (Some (CTask t))
               \<or> fst (await_cache_get (make_task_detail_cache_key task_id) w) = Inr None
                 \<and> find (\<lambda>t. t_id t = task_id) (tasks w) = Some t)
             \<and> t_owner_id t = u_id current_user" .
next
  fix t assume "fst (get_task task_id current_user w) = Inr t"
  then have "get_task task_id current_user w = (Inr t, snd (get_task task_id current_user w))"
    by (simp add: prod_eq_iff)
  from get_task_returns_own [OF assms this] show "t_owner_id t = u_id current_user" .
next
  fix t
  assume "fst (await_cache_get (make_task_detail_cache_key task_id) w) = Inr (Some (CTask t))
          \<and> t_owner_id t \<noteq> u_id current_user"
  then show "fst (get_task task_id current_user w) = Inl (HTTPException 403 ''Forbidden'')"
    using get_task_cache_hit_forbidden [OF assms] by blast
next
  fix t
  assume "fst (await_cache_get (make_task_detail_cache_key task_id) w) = Inr None
          \<and> find (\<lambda>t. t_id t = task_id) (tasks w) = Some t
          \<and> t_owner_id t \<noteq> u_id current_user"
  then show "fst (get_task task_id current_user w) = Inl (HTTPException 403 ''Forbidden'')"
    using get_task_store_forbidden [OF assms] by blast
next
  fix cm assume "fst (get_comment comment_id current_user w) = Inr cm"
  then have *: "get_comment comment_id current_user w
                  = (Inr cm, snd (get_comment comment_id current_user w))"
    by (simp add: prod_eq_iff)
  from get_comment_returns_visible [OF assms *]
  show "find (\<lambda>c. c_id c = comment_id) (comments w) = Some cm"
    and "c_user_id cm = u_id current_user
         \<or> (\<exists>task. find (\<lambda>t. t_id t = c_task_id cm) (tasks w) = Some task
                    \<and> t_owner_id task = u_id current_user)"
    by simp_all
qed

theorem non_admin_reads_only_visible_entities_witness:
  "fst (get_task 5 ex_owner ex_world_cached) = Inl (Unhandled ''NameError'')
   \<and> t_owner_id ex_task = u_id ex_owner
   \<and> fst (get_task 5 ex_other ex_world_cached) = Inl (HTTPException 403 ''Forbidden'')
   \<and> fst (get_task 5 ex_other ex_world) = Inl (HTTPException 403 ''Forbidden'')
   \<and> fst (get_comment 3 ex_owner ex_world) = Inr ex_comment
   \<and> c_user_id ex_comment \<noteq> u_id ex_owner
   \<and> find (\<lambda>t. t_id t = c_task_id ex_comment) (tasks ex_world) = Some ex_task"
proof -
  have r1: "u_role ex_owner \<noteq> ''admin''" and r2: "u_role ex_other \<noteq> ''admin''"
    by (simp_all add: ex_owner_def ex_other_def)
  have hit: "fst (await_cache_get (make_task_detail_cache_key 5) ex_world_cached)
               = Inr (Some (CTask ex_task))"
    by code_simp
  have miss: "fst (await_cache_get (make_task_detail_cache_key 5) ex_world) = Inr None"
    by code_simp
  have stored: "find (\<lambda>t. t_id t = 5) (tasks ex_world) = Some ex_task"
    by code_simp
  have other: "t_owner_id ex_task \<noteq> u_id ex_other"
    by (simp add: ex_task_def ex_other_def)
  have own: "fst (get_task 5 ex_owner ex_world_cached) = Inl (Unhandled ''NameError'')"
    by code_simp
  have cm: "fst (get_comment 3 ex_owner ex_world) = Inr ex_comment"
    by code_simp
  have cm_other: "c_user_id ex_comment \<noteq> u_id ex_owner"
    by (simp add: ex_comment_def ex_owner_def)
  have cm_task: "find (\<lambda>t. t_id t = c_task_id ex_comment) (tasks ex_world) = Some ex_task"
    by code_simp
  from non_admin_reads_only_visible_entities [OF r1, of 5 ex_world_cached 3] own
  have "\<exists>t. (fst (await_cache_get (make_task_detail_cache_key 5) ex_world_cached)
                 = Inr (Some (CTask t))
               \<or> fst (await_cache_get (make_task_detail_cache_key 5) ex_world_cached) = Inr None
                 \<and> find (\<lambda>t. t_id t = 5) (tasks ex_world_cached) = Some t)
             \<and> t_owner_id t = u_id ex_owner"
    by blast
  with hit have "t_owner_id ex_task = u_id ex_owner" by auto
  moreover
  from non_admin_reads_only_visible_entities [OF r2, of 5 ex_world_cached 3] hit other
  have "fst (get_task 5 ex_other ex_world_cached) = Inl (HTTPException 403 ''Forbidden'')"
    by blast
  moreover
  from non_admin_reads_only_visible_entities [OF r2, of 5 ex_world 3] miss stored other
  have "fst (get_task 5 ex_other ex_world) = Inl (HTTPException 403 ''Forbidden'')"
    by blast
  ultimately show ?thesis using own cm cm_other cm_task by simp
qed


section \<open>The enrichment job: retry bound\<close>

text \<open>
  C4. When the external call fails with a retried transport exception on each of the
  attempts 1, 2 and 3, the job raises \<open>RetryError\<close> after its third attempt, and the
  world it leaves differs from the one it found by exactly three \<open>GET\<close>s of the
  external document in the record of effects: no fourth attempt, no store query and no
  write, so every task's metadata is as it was.
\<close>

theorem enrichment_stops_after_three_attempts:
  assumes "\<forall>k \<in> {1, 2, 3}. ext k = FetchTransportError"
  shows "fetch_task_metadata ext task_id w
           = (Some RetryError,
              w\<lparr>trace := trace w @ [ExternalGet task_id, ExternalGet task_id, ExternalGet task_id]\<rparr>,
              3)"
proof -
  from assms have e: "ext 1 = FetchTransportError" "ext 2 = FetchTransportError"
    "ext 3 = FetchTransportError"
    by simp_all
  have three: "\<And>v. retrying 3 ext task_id v = (Some RetryError, emit (ExternalGet task_id) v, 3)"
    by (simp add: retrying.simps [of 3] fetch_body_def e)
  have two: "\<And>v. retrying 2 ext task_id v = retrying 3 ext task_id (emit (ExternalGet task_id) v)"
    by (simp add: retrying.simps [of 2] fetch_body_def e)
  have one: "\<And>v. retrying 1 ext task_id v = retrying 2 ext task_id (emit (ExternalGet task_id) v)"
    by (simp add: retrying.simps [of 1] fetch_body_def e del: One_nat_def)
  show ?thesis
    unfolding fetch_task_metadata_def one two three
    by (simp add: emit_def)
qed

theorem enrichment_stops_after_three_attempts_witness:
  "job_raised (fetch_task_metadata (\<lambda>k. FetchTransportError) 5 ex_world) = Some RetryError
   \<and> job_attempts (fetch_task_metadata (\<lambda>k. FetchTransportError) 5 ex_world) = 3
   \<and> events_since ex_world (job_world (fetch_task_metadata (\<lambda>k. FetchTransportError) 5 ex_world))
       = [ExternalGet 5, ExternalGet 5, ExternalGet 5]
   \<and> map t_task_metadata
        (tasks (job_world (fetch_task_metadata (\<lambda>k. FetchTransportError) 5 ex_world)))
       = [None]"
proof -
  have "\<forall>k \<in> {1, 2, 3::nat}. (\<lambda>k. FetchTransportError) k = FetchTransportError"
    by simp
  from enrichment_stops_after_three_attempts [OF this, of 5 ex_world]
  show ?thesis
    by (simp add: job_raised_def job_attempts_def job_world_def events_since_def ex_world_def
        ex_task_def)
qed


section \<open>The enrichment jobs: what they write\<close>
















end
